theory Spec2Isabelle
  imports Main "HOL-Library.FSet" "HOL-Library.Word"
begin

section \<open>The candidate grid of \<open>examples/sudoku/src/entity.h\<close>\<close>

text \<open>
  The source is one C++ class, \<open>Puzzle\<close>, with a single public data member
  \<open>grid\<close> of type \<open>std::vector<std::vector<std::set<int>>>\<close>, a constructor,
  three unit accessors and \<open>setValue\<close>.

  \<^item> \<open>std::set<int>\<close> is a finite ordered set of integers: an \<open>int fset\<close>, whose
    \<open>begin()\<close> is the least element (\<open>fMin\<close>), \<open>size()\<close> is \<open>fcard\<close> and
    \<open>erase(v)\<close> is \<open>|-| {|v|}\<close>.
  \<^item> \<open>std::vector\<close> is a list; \<open>operator[]\<close> is not bounds checked, so an index
    outside the vector is undefined behaviour, which the model reports as the
    outcome \<open>Undefined\<close>.
  \<^item> \<open>size_t\<close> arguments are \<open>nat\<close>; the \<open>int\<close> argument of \<open>setValue\<close> is a
    32-bit word read through \<open>sint\<close>; the \<open>int\<close> loop counters of the
    constructor are integers whose increment beyond \<open>INT_MAX\<close> is undefined
    behaviour (signed overflow).
  \<^item> Memory is unbounded: \<open>std::bad_alloc\<close> is not modelled.
\<close>

subsection \<open>Data\<close>

type_synonym c_int = "32 word"

type_synonym Options = "int fset"

type_synonym Grid = "Options list list"

record Puzzle =
  grid :: Grid

datatype exception = invalid_argument string

text \<open>
  What a call does: it returns normally with a value, it throws and leaves a value
  behind (for a member function, the object as it is when the exception leaves),
  or its behaviour is undefined.
\<close>

datatype 'a outcome = Returns 'a | Throws exception 'a | Undefined

subsection \<open>Integer conversions and \<open>std::to_string\<close>\<close>

definition INT_MAX :: int where
  "INT_MAX = 2147483647"

text \<open>
  The usual arithmetic conversions turn an \<open>int\<close> compared with a \<open>size_t\<close>
  into a 64-bit unsigned value, modulo \<open>2 ^ 64\<close>.
\<close>

definition to_size_t :: "int \<Rightarrow> nat" where
  "to_size_t i = nat (i mod 2 ^ 64)"

fun dec_digits :: "nat \<Rightarrow> string" where
  "dec_digits n =
     (if n < 10 then [char_of (48 + n)]
      else dec_digits (n div 10) @ [char_of (48 + n mod 10)])"

declare dec_digits.simps [simp del]

definition to_string :: "int \<Rightarrow> string" where
  "to_string i = (if i < 0 then CHR ''-'' # dec_digits (nat (- i)) else dec_digits (nat i))"

subsection \<open>The constructor \<open>Puzzle::Puzzle(size_t size)\<close>\<close>

text \<open>\<open>std::vector::resize(n)\<close>: cut to \<open>n\<close> elements or pad with default values.\<close>

definition resize :: "nat \<Rightarrow> 'a \<Rightarrow> 'a list \<Rightarrow> 'a list" where
  "resize n dflt xs = take n xs @ replicate (n - length xs) dflt"

text \<open>
  \<^verbatim>\<open>for (auto i = 1; i <= size; i++) { defaultData.insert(i); }\<close>
  The counter is an \<open>int\<close>; \<open>i++\<close> at \<open>INT_MAX\<close> overflows. The loops of the
  constructor return \<open>None\<close> for undefined behaviour.
\<close>

function Puzzle_defaultData :: "nat \<Rightarrow> int \<Rightarrow> Options \<Rightarrow> Options option" where
  "Puzzle_defaultData sz i defaultData =
     (if to_size_t i \<le> sz then
        (let defaultData' = finsert i defaultData
         in if INT_MAX \<le> i then None
            else Puzzle_defaultData sz (i + 1) defaultData')
      else Some defaultData)"
  by pat_completeness auto
termination
  by (relation "measure (\<lambda>(sz, i, d). nat (INT_MAX - i))") auto

declare Puzzle_defaultData.simps [simp del]

text \<open>
  \<^verbatim>\<open>for (int j = 0; j < size; j++) { grid[i][j] = defaultData; }\<close>
  Both indices are below the sizes of their vectors here: the loop conditions
  \<open>i < size\<close> and \<open>j < size\<close> compare with the sizes the two \<open>resize\<close> calls set.
\<close>

function Puzzle_cols :: "nat \<Rightarrow> Options \<Rightarrow> nat \<Rightarrow> int \<Rightarrow> Grid \<Rightarrow> Grid option" where
  "Puzzle_cols sz defaultData i j g =
     (if to_size_t j < sz then
        (let g' = g[i := (g ! i)[to_size_t j := defaultData]]
         in if INT_MAX \<le> j then None
            else Puzzle_cols sz defaultData i (j + 1) g')
      else Some g)"
  by pat_completeness auto
termination
  by (relation "measure (\<lambda>(sz, d, i, j, g). nat (INT_MAX - j))") auto

declare Puzzle_cols.simps [simp del]

text \<open>
  \<^verbatim>\<open>for (int i = 0; i < size; i++) { grid[i].resize(size); for (int j ...) ... }\<close>
\<close>

function Puzzle_rows :: "nat \<Rightarrow> Options \<Rightarrow> int \<Rightarrow> Grid \<Rightarrow> Grid option" where
  "Puzzle_rows sz defaultData i g =
     (if to_size_t i < sz then
        (let g1 = g[to_size_t i := resize sz {||} (g ! to_size_t i)]
         in case Puzzle_cols sz defaultData (to_size_t i) 0 g1 of
              None \<Rightarrow> None
            | Some g2 \<Rightarrow>
                if INT_MAX \<le> i then None
                else Puzzle_rows sz defaultData (i + 1) g2)
      else Some g)"
  by pat_completeness auto
termination
  by (relation "measure (\<lambda>(sz, d, i, g). nat (INT_MAX - i))") auto

declare Puzzle_rows.simps [simp del]

text \<open>
  The member \<open>grid\<close> starts as the empty vector and is resized to \<open>size\<close> rows.
  The constructor throws nothing; a loop that ran into undefined behaviour
  (\<open>None\<close>) makes the whole construction undefined.
\<close>

definition Puzzle :: "nat \<Rightarrow> Puzzle outcome" where
  "Puzzle sz =
     (case Puzzle_defaultData sz 1 {||} of
        None \<Rightarrow> Undefined
      | Some defaultData \<Rightarrow>
          (case Puzzle_rows sz defaultData 0 (resize sz [] []) of
             None \<Rightarrow> Undefined
           | Some g \<Rightarrow> Returns \<lparr>grid = g\<rparr>))"

subsection \<open>The unit accessors\<close>

text \<open>\<^verbatim>\<open>std::vector<Options> getRow(size_t n) { return std::vector<Options>(); }\<close>\<close>

definition getRow :: "nat \<Rightarrow> Puzzle \<Rightarrow> Options list" where
  "getRow n p = []"

definition getColumn :: "nat \<Rightarrow> Puzzle \<Rightarrow> Options list" where
  "getColumn m p = []"

definition getBox :: "nat \<Rightarrow> Puzzle \<Rightarrow> Options list" where
  "getBox n p = []"

subsection \<open>\<open>Puzzle::setValue(size_t row, size_t col, int value)\<close>\<close>

text \<open>
  The body of the range-for over \<open>grid[row]\<close>:
  \<^verbatim>\<open>if ((cell.size() == 1) && (*cell.begin() == value)) continue; else cell.erase(value);\<close>
\<close>

definition setValue_cell :: "int \<Rightarrow> Options \<Rightarrow> Options" where
  "setValue_cell val cell =
     (if fcard cell = 1 \<and> fMin cell = val then cell else cell |-| {|val|})"

text \<open>
  The value is checked first and a bad one throws before anything is written.
  \<open>grid[row][col]\<close> is then written without a bounds check, and the loop visits
  every cell of \<open>grid[row]\<close>, the target included.
\<close>

definition setValue :: "nat \<Rightarrow> nat \<Rightarrow> c_int \<Rightarrow> Puzzle \<Rightarrow> Puzzle outcome" where
  "setValue row col val p =
     (if sint val \<le> 0 \<or> to_size_t (sint val) > length (grid p) then
        Throws (invalid_argument (''Bad value '' @ to_string (sint val))) p
      else if row < length (grid p) \<and> col < length (grid p ! row) then
        (let g1 = (grid p)[row := (grid p ! row)[col := {|sint val|}]];
             g2 = g1[row := map (setValue_cell (sint val)) (g1 ! row)]
         in Returns (p\<lparr>grid := g2\<rparr>))
      else Undefined)"

text \<open>
  A sequence of calls \<open>setValue(row, col, value)\<close> on one object, as \<open>main\<close> makes
  them; it stops at the first call that does not return.
\<close>

fun setValue_calls :: "(nat \<times> nat \<times> c_int) list \<Rightarrow> Puzzle \<Rightarrow> Puzzle outcome" where
  "setValue_calls [] p = Returns p"
| "setValue_calls ((row, col, val) # calls) p =
     (case setValue row col val p of
        Returns p' \<Rightarrow> setValue_calls calls p'
      | Throws e p' \<Rightarrow> Throws e p'
      | Undefined \<Rightarrow> Undefined)"

subsection \<open>Three states of a 2-by-2 puzzle\<close>

text \<open>
  The object \<open>Puzzle a(2)\<close> builds, the same object after \<open>a.setValue(0, 0, 1)\<close>,
  and after \<open>a.setValue(0, 1, 1)\<close> as well. They are the concrete inputs of the
  evaluations below.
\<close>

abbreviation fresh2 :: Puzzle where
  "fresh2 \<equiv> \<lparr>grid = [[{|1, 2|}, {|1, 2|}], [{|1, 2|}, {|1, 2|}]]\<rparr>"

abbreviation fresh2_a :: Puzzle where
  "fresh2_a \<equiv> \<lparr>grid = [[{|1|}, {|2|}], [{|1, 2|}, {|1, 2|}]]\<rparr>"

abbreviation fresh2_ab :: Puzzle where
  "fresh2_ab \<equiv> \<lparr>grid = [[{|1|}, {|1|}], [{|1, 2|}, {|1, 2|}]]\<rparr>"

section \<open>Facts about \<open>setValue\<close>\<close>

subsection \<open>The test of the loop body and the value check\<close>

lemma fcard_1_fsingleton:
  assumes "fcard cell = 1"
  shows "\<exists>x. cell = {|x|}"
proof -
  from assms have "card (fset cell) = 1"
    by (simp add: fcard.rep_eq)
  then obtain x where "fset cell = {x}"
    by (auto simp: card_1_singleton_iff)
  then have "fset cell = fset {|x|}" by simp
  then have "cell = {|x|}" by (simp only: fset_inject)
  then show ?thesis ..
qed

text \<open>A cell is skipped exactly when it is the singleton of the value.\<close>

lemma setValue_cell_eq:
  "setValue_cell val cell = (if cell = {|val|} then cell else cell |-| {|val|})"
proof (cases "fcard cell = 1")
  case True
  then obtain x where "cell = {|x|}"
    using fcard_1_fsingleton by blast
  then show ?thesis by (simp add: setValue_cell_def fcard_finsert_if)
next
  case False
  then have "cell \<noteq> {|val|}" by (auto simp: fcard_finsert_if)
  with False show ?thesis by (simp add: setValue_cell_def)
qed

lemma to_size_t_nat: "0 \<le> i \<Longrightarrow> i < 2 ^ 64 \<Longrightarrow> to_size_t i = nat i"
  by (simp add: to_size_t_def)

lemma sint_c_int_bounds: "- 2147483648 \<le> sint (v :: c_int) \<and> sint v \<le> 2147483647"
  using sint_ge [of v] sint_lt [of v] by simp

text \<open>
  The check \<open>(value <= 0) || (value > grid.size())\<close> rejects exactly the values
  outside \<open>[1, grid.size()]\<close>: the second comparison is only reached with a
  positive \<open>value\<close>, which the conversion to \<open>size_t\<close> preserves.
\<close>

lemma bad_value_iff:
  "(sint (v :: c_int) \<le> 0 \<or> to_size_t (sint v) > n) \<longleftrightarrow> \<not> (1 \<le> sint v \<and> sint v \<le> int n)"
proof (cases "sint v \<le> 0")
  case True
  then show ?thesis by simp
next
  case False
  then have "to_size_t (sint v) = nat (sint v)"
    using sint_c_int_bounds [of v] by (intro to_size_t_nat) simp_all
  with False show ?thesis by auto
qed

lemma setValue_Returns:
  assumes "row < length (grid p)" and "col < length (grid p ! row)"
    and "1 \<le> sint v" and "sint v \<le> int (length (grid p))"
  shows "setValue row col v p =
    Returns (p\<lparr>grid := (grid p)[row := map (setValue_cell (sint v)) ((grid p ! row)[col := {|sint v|}])]\<rparr>)"
proof -
  have "\<not> (sint v \<le> 0 \<or> to_size_t (sint v) > length (grid p))"
    using assms(3,4) by (simp only: bad_value_iff) simp
  then show ?thesis
    using assms(1,2) by (simp add: setValue_def Let_def)
qed

lemma setValue_Returns_D:
  assumes "setValue row col v p = Returns p'"
  shows "row < length (grid p) \<and> col < length (grid p ! row)
    \<and> 1 \<le> sint v \<and> sint v \<le> int (length (grid p))"
proof -
  from assms have ok: "\<not> (sint v \<le> 0 \<or> to_size_t (sint v) > length (grid p))"
    by (auto simp: setValue_def split: if_splits)
  with assms have "row < length (grid p) \<and> col < length (grid p ! row)"
    by (auto simp: setValue_def split: if_splits)
  moreover from ok have "1 \<le> sint v \<and> sint v \<le> int (length (grid p))"
    by (simp only: bad_value_iff) simp
  ultimately show ?thesis by simp
qed

lemma setValue_Throws:
  assumes "sint v \<le> 0 \<or> int (length (grid p)) < sint v"
  shows "setValue row col v p =
    Throws (invalid_argument (''Bad value '' @ to_string (sint v))) p"
proof -
  from assms have "sint v \<le> 0 \<or> to_size_t (sint v) > length (grid p)"
    by (simp only: bad_value_iff) auto
  then show ?thesis by (simp add: setValue_def)
qed

text \<open>With a valid value, an index outside its vector is not detected.\<close>

lemma setValue_Undefined:
  assumes "1 \<le> sint v" and "sint v \<le> int (length (grid p))"
    and "\<not> (row < length (grid p) \<and> col < length (grid p ! row))"
  shows "setValue row col v p = Undefined"
proof -
  have "\<not> (sint v \<le> 0 \<or> to_size_t (sint v) > length (grid p))"
    using assms(1,2) by (simp only: bad_value_iff) simp
  then show ?thesis
    using assms(3) by (simp add: setValue_def)
qed

lemma setValue_Returns_grid:
  assumes "setValue row col v p = Returns p'"
  shows "grid p' = (grid p)[row := map (setValue_cell (sint v)) ((grid p ! row)[col := {|sint v|}])]"
proof -
  note D = setValue_Returns_D [OF assms]
  from D have "setValue row col v p =
    Returns (p\<lparr>grid := (grid p)[row := map (setValue_cell (sint v)) ((grid p ! row)[col := {|sint v|}])]\<rparr>)"
    by (intro setValue_Returns) simp_all
  with assms show ?thesis by auto
qed

lemma setValue_cell_nonempty: "cell \<noteq> {||} \<Longrightarrow> setValue_cell val cell \<noteq> {||}"
  by (auto simp: setValue_cell_eq)

lemma fcard_setValue_cell: "fcard (setValue_cell val cell) \<le> fcard cell"
  by (simp add: setValue_cell_eq fcard_fminus_fsingleton_if)

text \<open>One call keeps every cell non-empty, and so does a sequence of calls.\<close>

lemma setValue_preserves_nonempty:
  assumes "setValue row col v p = Returns p'"
    and "\<forall>cells \<in> set (grid p). {||} \<notin> set cells"
  shows "\<forall>cells \<in> set (grid p'). {||} \<notin> set cells"
proof
  fix cells assume "cells \<in> set (grid p')"
  then have "cells \<in> set ((grid p)[row := map (setValue_cell (sint v)) ((grid p ! row)[col := {|sint v|}])])"
    by (simp only: setValue_Returns_grid [OF assms(1)])
  then consider "cells \<in> set (grid p)"
    | "cells = map (setValue_cell (sint v)) ((grid p ! row)[col := {|sint v|}])"
    using set_update_subset_insert by fastforce
  then show "{||} \<notin> set cells"
  proof cases
    case 1
    with assms(2) show ?thesis by blast
  next
    case 2
    have row: "row < length (grid p)"
      using setValue_Returns_D [OF assms(1)] by simp
    then have "{||} \<notin> set (grid p ! row)"
      using assms(2) by simp
    moreover have "set ((grid p ! row)[col := {|sint v|}]) \<subseteq> insert {|sint v|} (set (grid p ! row))"
      by (rule set_update_subset_insert)
    ultimately have "{||} \<notin> set ((grid p ! row)[col := {|sint v|}])"
      by auto
    then show ?thesis
      unfolding 2 using setValue_cell_nonempty by (metis (no_types, lifting) imageE set_map)
  qed
qed

lemma setValue_calls_preserves_nonempty:
  "setValue_calls calls p = Returns p' \<Longrightarrow> \<forall>cells \<in> set (grid p). {||} \<notin> set cells
     \<Longrightarrow> \<forall>cells \<in> set (grid p'). {||} \<notin> set cells"
proof (induction calls arbitrary: p)
  case Nil
  then show ?case by simp
next
  case (Cons call calls)
  obtain row col v where call: "call = (row, col, v)"
    by (cases call)
  from Cons.prems(1) obtain p1 where
    p1: "setValue row col v p = Returns p1" and rest: "setValue_calls calls p1 = Returns p'"
    unfolding call by (auto split: outcome.splits)
  from p1 Cons.prems(2) have "\<forall>cells \<in> set (grid p1). {||} \<notin> set cells"
    by (rule setValue_preserves_nonempty)
  with rest show ?case by (rule Cons.IH)
qed

section \<open>Facts about the constructor\<close>

text \<open>
  Each loop is characterised by computation induction. The \<open>int\<close> counter of the
  first loop is incremented once more after the last insertion, so that loop
  ends normally exactly for \<open>size < INT_MAX\<close>.
\<close>

lemma to_size_t_counter: "0 \<le> i \<Longrightarrow> i \<le> INT_MAX \<Longrightarrow> to_size_t i = nat i"
  by (rule to_size_t_nat) (simp_all add: INT_MAX_def)

lemma Puzzle_defaultData_overflow:
  "INT_MAX \<le> int sz \<Longrightarrow> 0 \<le> i \<Longrightarrow> i \<le> INT_MAX \<Longrightarrow> Puzzle_defaultData sz i d = None"
proof (induction sz i d rule: Puzzle_defaultData.induct)
  case (1 sz i d)
  have guard: "to_size_t i \<le> sz"
    using "1.prems" by (simp add: to_size_t_counter)
  show ?case
  proof (cases "INT_MAX \<le> i")
    case True
    with guard show ?thesis
      by (subst Puzzle_defaultData.simps) (simp add: Let_def)
  next
    case False
    with guard "1.prems" have "Puzzle_defaultData sz (i + 1) (finsert i d) = None"
      by (intro "1.IH") simp_all
    with guard False show ?thesis
      by (subst Puzzle_defaultData.simps) (simp add: Let_def)
  qed
qed

lemma Puzzle_defaultData_result:
  "int sz < INT_MAX \<Longrightarrow> 1 \<le> i \<Longrightarrow> i \<le> int sz + 1 \<Longrightarrow>
     \<exists>d'. Puzzle_defaultData sz i d = Some d' \<and> fset d' = fset d \<union> {i..int sz}"
proof (induction sz i d rule: Puzzle_defaultData.induct)
  case (1 sz i d)
  have conv: "to_size_t i = nat i"
    using "1.prems" by (intro to_size_t_counter) simp_all
  show ?case
  proof (cases "i \<le> int sz")
    case True
    then have guard: "to_size_t i \<le> sz" and small: "\<not> INT_MAX \<le> i"
      using "1.prems" conv by simp_all
    from guard small "1.prems" True
    obtain d' where d': "Puzzle_defaultData sz (i + 1) (finsert i d) = Some d'"
      "fset d' = fset (finsert i d) \<union> {i + 1..int sz}"
      using "1.IH" [of "finsert i d"] by auto
    have "{i..int sz} = insert i {i + 1..int sz}"
      using True by auto
    with d' have "fset d' = fset d \<union> {i..int sz}" by simp
    with d'(1) guard small show ?thesis
      by (subst Puzzle_defaultData.simps) (simp add: Let_def)
  next
    case False
    then have "\<not> to_size_t i \<le> sz" using conv "1.prems" by simp
    with False show ?thesis
      by (subst Puzzle_defaultData.simps) simp
  qed
qed

lemma Puzzle_cols_result:
  "int sz \<le> INT_MAX \<Longrightarrow> i < length g \<Longrightarrow> length (g ! i) = sz \<Longrightarrow> 0 \<le> j \<Longrightarrow> j \<le> int sz \<Longrightarrow>
     Puzzle_cols sz d i j g = Some (g[i := take (nat j) (g ! i) @ replicate (sz - nat j) d])"
proof (induction sz d i j g rule: Puzzle_cols.induct)
  case (1 sz d i j g)
  have conv: "to_size_t j = nat j"
    using "1.prems" by (intro to_size_t_counter) simp_all
  show ?case
  proof (cases "j < int sz")
    case True
    then have guard: "to_size_t j < sz" and small: "\<not> INT_MAX \<le> j"
      using "1.prems" conv by simp_all
    let ?g' = "g[i := (g ! i)[to_size_t j := d]]"
    have rec: "Puzzle_cols sz d i (j + 1) ?g' =
        Some (?g'[i := take (nat (j + 1)) (?g' ! i) @ replicate (sz - nat (j + 1)) d])"
      using guard small "1.prems" True by (intro "1.IH") simp_all
    have nj: "nat (j + 1) = Suc (nat j)" using "1.prems" by simp
    have lt: "nat j < length (g ! i)" using True "1.prems" by simp
    have "take (Suc (nat j)) ((g ! i)[nat j := d]) = take (nat j) (g ! i) @ [d]"
      using lt by (simp add: take_Suc_conv_app_nth)
    moreover have "replicate (sz - nat j) d = d # replicate (sz - Suc (nat j)) d"
      using lt "1.prems" by (cases "sz - nat j") simp_all
    ultimately have "?g'[i := take (nat (j + 1)) (?g' ! i) @ replicate (sz - nat (j + 1)) d]
        = g[i := take (nat j) (g ! i) @ replicate (sz - nat j) d]"
      using "1.prems" by (simp add: nj conv)
    with rec guard small show ?thesis
      by (subst Puzzle_cols.simps) (simp add: Let_def)
  next
    case False
    then have j: "nat j = sz" using "1.prems" by simp
    then have "\<not> to_size_t j < sz" using conv by simp
    then show ?thesis
      using j "1.prems" by (subst Puzzle_cols.simps) simp
  qed
qed

lemma length_resize: "length (resize n x xs) = n"
  by (simp add: resize_def)

lemma Puzzle_rows_result:
  "int sz \<le> INT_MAX \<Longrightarrow> length g = sz \<Longrightarrow> 0 \<le> i \<Longrightarrow> i \<le> int sz \<Longrightarrow>
     Puzzle_rows sz d i g = Some (take (nat i) g @ replicate (sz - nat i) (replicate sz d))"
proof (induction sz d i g rule: Puzzle_rows.induct)
  case (1 sz d i g)
  have conv: "to_size_t i = nat i"
    using "1.prems" by (intro to_size_t_counter) simp_all
  show ?case
  proof (cases "i < int sz")
    case True
    then have guard: "to_size_t i < sz" and small: "\<not> INT_MAX \<le> i"
      using "1.prems" conv by simp_all
    have lt: "nat i < length g" using True "1.prems" by simp
    let ?g1 = "g[to_size_t i := resize sz {||} (g ! to_size_t i)]"
    let ?g2 = "g[nat i := replicate sz d]"
    have "Puzzle_cols sz d (to_size_t i) 0 ?g1 =
        Some (?g1[to_size_t i := take (nat 0) (?g1 ! to_size_t i) @ replicate (sz - nat 0) d])"
      using "1.prems" lt conv by (intro Puzzle_cols_result) (simp_all add: length_resize)
    then have cols: "Puzzle_cols sz d (to_size_t i) 0 ?g1 = Some ?g2"
      by (simp add: conv)
    have rec: "Puzzle_rows sz d (i + 1) ?g2 =
        Some (take (nat (i + 1)) ?g2 @ replicate (sz - nat (i + 1)) (replicate sz d))"
      using guard small cols "1.prems" True
      by (intro "1.IH" [where ?x2.0 = "?g2"]) simp_all
    have ni: "nat (i + 1) = Suc (nat i)" using "1.prems" by simp
    have "take (Suc (nat i)) ?g2 = take (nat i) g @ [replicate sz d]"
      using lt by (simp add: take_Suc_conv_app_nth)
    moreover have "replicate (sz - nat i) (replicate sz d)
        = replicate sz d # replicate (sz - Suc (nat i)) (replicate sz d)"
      using lt "1.prems" by (cases "sz - nat i") simp_all
    ultimately have "take (nat (i + 1)) ?g2 @ replicate (sz - nat (i + 1)) (replicate sz d)
        = take (nat i) g @ replicate (sz - nat i) (replicate sz d)"
      by (simp add: ni)
    with rec cols guard small show ?thesis
      by (subst Puzzle_rows.simps) (simp add: Let_def)
  next
    case False
    then have i: "nat i = sz" using "1.prems" by simp
    then have "\<not> to_size_t i < sz" using conv by simp
    then show ?thesis
      using i "1.prems" by (subst Puzzle_rows.simps) simp
  qed
qed

lemma Puzzle_result:
  assumes "int sz < INT_MAX"
  shows "\<exists>d. Puzzle sz = Returns \<lparr>grid = replicate sz (replicate sz d)\<rparr> \<and> fset d = {1..int sz}"
proof -
  from assms obtain d where d: "Puzzle_defaultData sz 1 {||} = Some d" "fset d = {1..int sz}"
    using Puzzle_defaultData_result [of sz 1 "{||}"] by auto
  have "Puzzle_rows sz d 0 (resize sz [] []) =
      Some (take (nat 0) (resize sz [] []) @ replicate (sz - nat 0) (replicate sz d))"
    using assms by (intro Puzzle_rows_result) (simp_all add: length_resize)
  then have "Puzzle_rows sz d 0 (resize sz [] []) = Some (replicate sz (replicate sz d))"
    by simp
  with d have "Puzzle sz = Returns \<lparr>grid = replicate sz (replicate sz d)\<rparr>"
    by (simp add: Puzzle_def)
  with d(2) show ?thesis by blast
qed

lemma Puzzle_overflow:
  assumes "INT_MAX \<le> int sz"
  shows "Puzzle sz = Undefined"
proof -
  have "Puzzle_defaultData sz 1 {||} = None"
    using assms by (intro Puzzle_defaultData_overflow) (simp_all add: INT_MAX_def)
  then show ?thesis by (simp add: Puzzle_def)
qed

lemma Puzzle_Returns_nonempty:
  assumes "Puzzle N = Returns p"
  shows "\<forall>cells \<in> set (grid p). {||} \<notin> set cells"
proof (cases "int N < INT_MAX")
  case True
  then obtain d where d: "Puzzle N = Returns \<lparr>grid = replicate N (replicate N d)\<rparr>"
    "fset d = {1..int N}"
    using Puzzle_result by blast
  show ?thesis
  proof (cases "N = 0")
    case True
    with d assms show ?thesis by auto
  next
    case False
    then have "1 \<in> fset d" using d(2) by simp
    then have "d \<noteq> {||}" by auto
    with d(1) assms show ?thesis by auto
  qed
next
  case False
  then have "Puzzle N = Undefined" by (intro Puzzle_overflow) simp
  with assms show ?thesis by simp
qed

section \<open>Evaluations used below\<close>

lemma Puzzle_2:
  "Puzzle 2 = Returns fresh2"
  by code_simp

lemma setValue_0_0_1:
  "setValue 0 0 1 fresh2 = Returns fresh2_a"
  by code_simp

lemma setValue_0_1_1:
  "setValue 0 1 1 fresh2_a = Returns fresh2_ab"
  by code_simp

lemma calls_example:
  "setValue_calls [(0, 0, 1), (0, 1, 1), (1, 1, 2)] fresh2
     = Returns \<lparr>grid = [[{|1|}, {|1|}], [{|1|}, {|2|}]]\<rparr>"
  by code_simp

lemma to_string_3: "to_string 3 = ''3''"
  by code_simp

text \<open>
  The run of \<open>main\<close>: \<open>Puzzle a(9); a.setValue(1, 1, 5);\<close> leaves 5 as the only
  candidate of cell \<open>(1, 1)\<close> and removes 5 from the eight other cells of row 1.
\<close>

lemma main_example:
  "(case Puzzle 9 of
      Returns a \<Rightarrow> setValue 1 1 5 a
    | Throws e a \<Rightarrow> Throws e a
    | Undefined \<Rightarrow> Undefined) =
   Returns \<lparr>grid =
     [replicate 9 {|1, 2, 3, 4, 5, 6, 7, 8, 9|},
      [{|1, 2, 3, 4, 6, 7, 8, 9|}, {|5|}, {|1, 2, 3, 4, 6, 7, 8, 9|},
       {|1, 2, 3, 4, 6, 7, 8, 9|}, {|1, 2, 3, 4, 6, 7, 8, 9|}, {|1, 2, 3, 4, 6, 7, 8, 9|},
       {|1, 2, 3, 4, 6, 7, 8, 9|}, {|1, 2, 3, 4, 6, 7, 8, 9|}, {|1, 2, 3, 4, 6, 7, 8, 9|}]]
     @ replicate 7 (replicate 9 {|1, 2, 3, 4, 5, 6, 7, 8, 9|})\<rparr>"
  by code_simp

section \<open>The claims\<close>

text \<open>
  Claim C1. For a row and a column inside the grid and a value \<open>v\<close> in
  \<open>[1, N]\<close>, \<open>setValue(row, col, v)\<close> returns; it eliminates \<open>v\<close> only within its
  own row: the target cell becomes \<open>{v}\<close>, every other cell of that row whose
  candidate set is not exactly \<open>{v}\<close> loses \<open>v\<close> (a cell that is exactly \<open>{v}\<close>
  is kept), and every other row, so every column and box peer in another row,
  is unchanged.
\<close>

theorem setValue_row_elimination:
  assumes "row < length (grid p)" and "col < length (grid p ! row)"
    and "1 \<le> sint v" and "sint v \<le> int (length (grid p))"
  shows "\<exists>p'. setValue row col v p = Returns p'
    \<and> length (grid p') = length (grid p)
    \<and> length (grid p' ! row) = length (grid p ! row)
    \<and> grid p' ! row ! col = {|sint v|}
    \<and> (\<forall>c < length (grid p ! row). c \<noteq> col \<longrightarrow>
          grid p' ! row ! c =
            (if grid p ! row ! c = {|sint v|} then grid p ! row ! c
             else grid p ! row ! c |-| {|sint v|}))
    \<and> (\<forall>r < length (grid p). r \<noteq> row \<longrightarrow> grid p' ! r = grid p ! r)"
  using assms by (simp add: setValue_Returns setValue_cell_eq)

theorem setValue_row_elimination_witness:
  "\<exists>p'. setValue 0 0 1 fresh2 = Returns p'
     \<and> grid p' ! 0 ! 0 = {|1|}
     \<and> grid p' ! 0 ! 1 = {|2|}
     \<and> grid p' ! 1 = [{|1, 2|}, {|1, 2|}]"
  using setValue_row_elimination
    [of 0 fresh2 0 1]
  by auto

text \<open>
  Claim C2, as stated, fails: \<open>setValue\<close> does propagate, to the cells of its own
  row. On the grid of \<open>Puzzle(2)\<close>, \<open>setValue(0, 0, 1)\<close> changes cell \<open>(0, 1)\<close>
  from \<open>{1, 2}\<close> to \<open>{2}\<close>.
\<close>

theorem setValue_propagates_counterexample:
  "setValue 0 0 1 fresh2 = Returns fresh2_a
   \<and> grid fresh2_a ! 0 ! 1 \<noteq> grid fresh2 ! 0 ! 1"
  using setValue_0_0_1 by simp

text \<open>
  Claim C2, amended. For a row and a column inside the grid and a value in
  \<open>[1, N]\<close>, after \<open>setValue(row, col, value)\<close> every cell of another row has
  exactly the candidate set it had before, and every other cell of the same row
  has its previous candidate set with at most \<open>value\<close> removed.
\<close>

theorem setValue_frame:
  assumes "row < length (grid p)" and "col < length (grid p ! row)"
    and "1 \<le> sint v" and "sint v \<le> int (length (grid p))"
  shows "\<exists>p'. setValue row col v p = Returns p'
    \<and> (\<forall>r < length (grid p). \<forall>c < length (grid p ! r). (r, c) \<noteq> (row, col) \<longrightarrow>
          grid p' ! r ! c |\<subseteq>| grid p ! r ! c
          \<and> grid p ! r ! c |-| grid p' ! r ! c |\<subseteq>| {|sint v|}
          \<and> (r \<noteq> row \<longrightarrow> grid p' ! r ! c = grid p ! r ! c))"
  using assms by (auto simp add: setValue_Returns setValue_cell_eq nth_list_update)

theorem setValue_frame_witness:
  "\<exists>p'. setValue 0 0 1 fresh2 = Returns p'
     \<and> grid p' ! 1 ! 0 = {|1, 2|}
     \<and> grid p' ! 0 ! 1 |\<subseteq>| {|1, 2|}
     \<and> {|1, 2|} |-| grid p' ! 0 ! 1 |\<subseteq>| {|1|}"
proof -
  obtain p' where ret: "setValue 0 0 1 fresh2 = Returns p'"
    and frame: "\<forall>r < length (grid fresh2). \<forall>c < length (grid fresh2 ! r). (r, c) \<noteq> (0, 0) \<longrightarrow>
          grid p' ! r ! c |\<subseteq>| grid fresh2 ! r ! c
          \<and> grid fresh2 ! r ! c |-| grid p' ! r ! c |\<subseteq>| {|sint (1 :: c_int)|}
          \<and> (r \<noteq> 0 \<longrightarrow> grid p' ! r ! c = grid fresh2 ! r ! c)"
    using setValue_frame [of 0 fresh2 0 1] by auto
  from frame [rule_format, of 1 0] have "grid p' ! 1 ! 0 = {|1, 2|}"
    by simp
  moreover from frame [rule_format, of 0 1]
  have "grid p' ! 0 ! 1 |\<subseteq>| {|1, 2|} \<and> {|1, 2|} |-| grid p' ! 0 ! 1 |\<subseteq>| {|1|}"
    by simp
  ultimately show ?thesis using ret by blast
qed

text \<open>
  Claim C3, as stated, fails for a size beyond the range of the \<open>int\<close> values the
  candidate sets hold: for \<open>size = 2 ^ 31\<close> the counter of the first loop reaches
  \<open>INT_MAX\<close> and its increment overflows.
\<close>

theorem Puzzle_size_counterexample:
  "Puzzle 2147483648 = Undefined"
  by (rule Puzzle_overflow) (simp add: INT_MAX_def)

text \<open>
  Claim C3, amended. For every size \<open>N \<le> 2147483646\<close>, constructing
  \<open>Puzzle(N)\<close> yields an \<open>N\<close>-by-\<open>N\<close> grid in which every cell's candidate set is
  exactly \<open>{1..N}\<close>.
\<close>

theorem Puzzle_all_candidates:
  assumes "N \<le> 2147483646"
  shows "\<exists>p. Puzzle N = Returns p \<and> length (grid p) = N
    \<and> (\<forall>r < N. length (grid p ! r) = N \<and> (\<forall>c < N. fset (grid p ! r ! c) = {1..int N}))"
proof -
  from assms have "int N < INT_MAX" by (simp add: INT_MAX_def)
  then obtain d where "Puzzle N = Returns \<lparr>grid = replicate N (replicate N d)\<rparr>"
    and "fset d = {1..int N}"
    using Puzzle_result by blast
  then show ?thesis by simp
qed

theorem Puzzle_all_candidates_witness:
  "(2 :: nat) \<le> 2147483646 \<and>
   (\<exists>p. Puzzle 2 = Returns p \<and> length (grid p) = 2 \<and> length (grid p ! 1) = 2
      \<and> fset (grid p ! 1 ! 0) = {1..2})"
  using Puzzle_all_candidates [of 2] by auto

text \<open>
  Claim C4 says that a row or a column outside \<open>[0, N)\<close> makes the call fail.
  The code checks only the value: with a valid value, \<open>grid[row][col]\<close> is written
  through the unchecked \<open>operator[]\<close>. On the grid of \<open>Puzzle(2)\<close>, both
  \<open>setValue(2, 0, 1)\<close> and \<open>setValue(0, 2, 1)\<close> index outside a vector.
\<close>

theorem setValue_unchecked_index:
  "setValue 2 0 1 fresh2 = Undefined
   \<and> setValue 0 2 1 fresh2 = Undefined"
  by code_simp

text \<open>
  Claim C5. For a row and a column inside the grid and a value \<open>v\<close> in \<open>[1, N]\<close>,
  \<open>setValue(row, col, v)\<close> sets the target cell to exactly \<open>{v}\<close>, whatever it held,
  and a second call with the same arguments returns the same grid.
\<close>

theorem setValue_idempotent:
  assumes "row < length (grid p)" and "col < length (grid p ! row)"
    and "1 \<le> sint v" and "sint v \<le> int (length (grid p))"
  shows "\<exists>p'. setValue row col v p = Returns p'
    \<and> grid p' ! row ! col = {|sint v|}
    \<and> setValue row col v p' = Returns p'"
proof -
  let ?f = "setValue_cell (sint v)"
  let ?r1 = "map ?f ((grid p ! row)[col := {|sint v|}])"
  let ?p' = "p\<lparr>grid := (grid p)[row := ?r1]\<rparr>"
  have 1: "setValue row col v p = Returns ?p'"
    using assms by (rule setValue_Returns)
  have ff: "?f (?f c) = ?f c" for c
    by (simp add: setValue_cell_eq)
  have tgt: "?r1 ! col = {|sint v|}"
    using assms(2) by (simp add: setValue_cell_eq)
  have "?r1[col := {|sint v|}] = ?r1"
    using tgt assms(2) by (metis list_update_id)
  then have r2: "map ?f (?r1[col := {|sint v|}]) = ?r1"
    by (simp add: ff)
  have "setValue row col v ?p' =
    Returns (?p'\<lparr>grid := (grid ?p')[row := map ?f ((grid ?p' ! row)[col := {|sint v|}])]\<rparr>)"
    using assms by (intro setValue_Returns) simp_all
  also have "(grid ?p' ! row) = ?r1"
    using assms(1) by simp
  finally have 2: "setValue row col v ?p' = Returns ?p'"
    using assms(1) by (simp only: r2) simp
  from 1 2 tgt assms(1) show ?thesis by simp
qed

theorem setValue_idempotent_witness:
  "\<exists>p'. setValue 0 1 1 fresh2_a = Returns p'
     \<and> grid p' ! 0 ! 1 = {|1|}
     \<and> setValue 0 1 1 p' = Returns p'"
  using setValue_idempotent [of 0 fresh2_a 1 1]
  by simp

text \<open>
  Claim C6, as stated, fails on a grid whose target cell is empty (the member
  \<open>grid\<close> is public, so such a state can be handed to \<open>setValue\<close>): the target
  goes from no candidate to one.
\<close>

theorem setValue_grows_counterexample:
  "setValue 0 0 1 \<lparr>grid = [[{||}]]\<rparr> = Returns \<lparr>grid = [[{|1|}]]\<rparr>
   \<and> fcard (grid \<lparr>grid = [[{||}]]\<rparr> ! 0 ! 0) < fcard (grid \<lparr>grid = [[{|1|}]]\<rparr> ! 0 ! 0)"
  by code_simp

text \<open>
  Claim C6, amended. For every grid state whose target cell is not empty, as it
  is in every state reached from a constructed \<open>Puzzle\<close> through \<open>setValue\<close>, a
  call of \<open>setValue\<close> that returns keeps the shape of the grid and increases the
  size of no cell's candidate set.
\<close>

theorem setValue_shrinks:
  assumes "setValue row col v p = Returns p'" and "grid p ! row ! col \<noteq> {||}"
  shows "length (grid p') = length (grid p)
    \<and> (\<forall>r < length (grid p). length (grid p' ! r) = length (grid p ! r)
          \<and> (\<forall>c < length (grid p ! r). fcard (grid p' ! r ! c) \<le> fcard (grid p ! r ! c)))"
proof -
  note g' = setValue_Returns_grid [OF assms(1)]
  note D = setValue_Returns_D [OF assms(1)]
  have tgt: "fcard {|sint v|} \<le> fcard (grid p ! row ! col)"
  proof -
    have "fcard (grid p ! row ! col) \<noteq> 0" using assms(2) by simp
    then have "1 \<le> fcard (grid p ! row ! col)" by arith
    moreover have "fcard {|sint v|} = 1" by (simp add: fcard_finsert_if fcard_fempty)
    ultimately show ?thesis by (simp only:)
  qed
  have cell: "fcard (grid p' ! r ! c) \<le> fcard (grid p ! r ! c)"
    if "r < length (grid p)" and "c < length (grid p ! r)" for r c
  proof (cases "r = row")
    case False
    with that show ?thesis by (simp add: g')
  next
    case True
    show ?thesis
    proof (cases "c = col")
      case True
      with \<open>r = row\<close> that tgt show ?thesis by (simp add: g' setValue_cell_eq)
    next
      case False
      with \<open>r = row\<close> that show ?thesis by (simp add: g' fcard_setValue_cell)
    qed
  qed
  have len: "length (grid p' ! r) = length (grid p ! r)" if "r < length (grid p)" for r
    using that by (cases "r = row") (simp_all add: g')
  from cell len show ?thesis by (simp add: g')
qed

theorem setValue_shrinks_witness:
  "setValue 0 0 1 fresh2 = Returns fresh2_a
   \<and> grid fresh2 ! 0 ! 0 \<noteq> {||}
   \<and> fcard (grid fresh2_a ! 0 ! 1) \<le> fcard (grid fresh2 ! 0 ! 1)"
proof -
  have ne: "grid fresh2 ! 0 ! 0 \<noteq> {||}"
    by simp
  from setValue_shrinks [OF setValue_0_0_1 ne, THEN conjunct2, rule_format, of 0, THEN conjunct2, rule_format, of 1]
  have "fcard (grid fresh2_a ! 0 ! 1) \<le> fcard (grid fresh2 ! 0 ! 1)"
    by simp
  with setValue_0_0_1 ne show ?thesis by blast
qed

text \<open>
  Claim C7, as stated, fails: nothing in the code detects a contradiction. After
  \<open>setValue(0, 0, 1)\<close> on the grid of \<open>Puzzle(2)\<close>, the call \<open>setValue(0, 1, 1)\<close>
  assigns 1 in a row that already has a cell fixed to 1; it returns normally and
  leaves both cells of row 0 fixed to 1.
\<close>

theorem setValue_duplicate_counterexample:
  "setValue 0 1 1 fresh2_a = Returns fresh2_ab"
  by code_simp

text \<open>
  Claim C7, amended. \<open>setValue\<close> reports no contradiction: for a row and a column
  inside the grid and a value \<open>v\<close> in \<open>[1, N]\<close> it returns normally; it leaves no
  cell empty that was not empty before; and when another cell of the row is
  already fixed to \<open>v\<close>, that cell and the target both hold \<open>{v}\<close> afterwards.
\<close>

theorem setValue_reports_no_contradiction:
  assumes "row < length (grid p)" and "col < length (grid p ! row)"
    and "1 \<le> sint v" and "sint v \<le> int (length (grid p))"
  shows "\<exists>p'. setValue row col v p = Returns p'
    \<and> (\<forall>r < length (grid p). \<forall>c < length (grid p ! r).
          grid p ! r ! c \<noteq> {||} \<longrightarrow> grid p' ! r ! c \<noteq> {||})
    \<and> (\<forall>c < length (grid p ! row). c \<noteq> col \<longrightarrow> grid p ! row ! c = {|sint v|} \<longrightarrow>
          grid p' ! row ! col = {|sint v|} \<and> grid p' ! row ! c = {|sint v|})"
  using assms
  by (auto simp add: setValue_Returns setValue_cell_eq nth_list_update)

theorem setValue_reports_no_contradiction_witness:
  "\<exists>p'. setValue 0 1 1 fresh2_a = Returns p'
     \<and> grid p' ! 0 ! 0 = {|1|} \<and> grid p' ! 0 ! 1 = {|1|} \<and> grid p' ! 1 ! 0 \<noteq> {||}"
proof -
  obtain p' where ret: "setValue 0 1 1 fresh2_a = Returns p'"
    and ne: "\<forall>r < length (grid fresh2_a). \<forall>c < length (grid fresh2_a ! r).
          grid fresh2_a ! r ! c \<noteq> {||} \<longrightarrow> grid p' ! r ! c \<noteq> {||}"
    and dup: "\<forall>c < length (grid fresh2_a ! 0). c \<noteq> 1 \<longrightarrow> grid fresh2_a ! 0 ! c = {|sint (1 :: c_int)|} \<longrightarrow>
          grid p' ! 0 ! 1 = {|sint (1 :: c_int)|} \<and> grid p' ! 0 ! c = {|sint (1 :: c_int)|}"
    using setValue_reports_no_contradiction [of 0 fresh2_a 1 1] by auto
  from dup [rule_format, of 0] have "grid p' ! 0 ! 1 = {|1|} \<and> grid p' ! 0 ! 0 = {|1|}"
    by simp
  moreover from ne [rule_format, of 1 0] have "grid p' ! 1 ! 0 \<noteq> {||}"
    by simp
  ultimately show ?thesis using ret by blast
qed

text \<open>
  Claim C8, as stated, fails: the three accessors are stubs that return a new
  empty vector. On the 1-by-1 grid, \<open>getRow(0)\<close>, \<open>getColumn(0)\<close> and \<open>getBox(0)\<close>
  have no element, not one.
\<close>

theorem getRow_counterexample:
  "length (getRow 0 \<lparr>grid = [[{|1|}]]\<rparr>) \<noteq> 1
   \<and> length (getColumn 0 \<lparr>grid = [[{|1|}]]\<rparr>) \<noteq> 1
   \<and> length (getBox 0 \<lparr>grid = [[{|1|}]]\<rparr>) \<noteq> 1"
  by (simp add: getRow_def getColumn_def getBox_def)

text \<open>
  Claim C8, amended. For every index and every grid, each of \<open>getRow(n)\<close>,
  \<open>getColumn(n)\<close> and \<open>getBox(n)\<close> returns the empty sequence.
\<close>

theorem getRow_getColumn_getBox_empty:
  "getRow n p = [] \<and> getColumn n p = [] \<and> getBox n p = []"
  by (simp add: getRow_def getColumn_def getBox_def)

text \<open>
  Claim C9. Starting from a constructed \<open>Puzzle(N)\<close>, no sequence of \<open>setValue\<close>
  calls that all return produces a cell with an empty candidate set. (For
  \<open>N = 0\<close> the grid has no cell, so the statement needs no lower bound on \<open>N\<close>.)
\<close>

theorem setValue_never_empties:
  assumes "Puzzle N = Returns p0" and "setValue_calls calls p0 = Returns p"
  shows "\<forall>cells \<in> set (grid p). \<forall>cell \<in> set cells. cell \<noteq> {||}"
proof -
  from assms(1) have "\<forall>cells \<in> set (grid p0). {||} \<notin> set cells"
    by (rule Puzzle_Returns_nonempty)
  with assms(2) have "\<forall>cells \<in> set (grid p). {||} \<notin> set cells"
    by (rule setValue_calls_preserves_nonempty)
  then show ?thesis by metis
qed

theorem setValue_never_empties_witness:
  "Puzzle 2 = Returns fresh2
   \<and> setValue_calls [(0, 0, 1), (0, 1, 1), (1, 1, 2)] fresh2
     = Returns \<lparr>grid = [[{|1|}, {|1|}], [{|1|}, {|2|}]]\<rparr>
   \<and> {||} \<notin> set (grid \<lparr>grid = [[{|1|}, {|1|}], [{|1|}, {|2|}]]\<rparr> ! 0)"
proof -
  have "\<forall>cells \<in> set (grid \<lparr>grid = [[{|1|}, {|1|}], [{|1|}, {|2|}]]\<rparr>).
      \<forall>cell \<in> set cells. cell \<noteq> {||}"
    using Puzzle_2 calls_example by (rule setValue_never_empties)
  then have "{||} \<notin> set (grid \<lparr>grid = [[{|1|}, {|1|}], [{|1|}, {|2|}]]\<rparr> ! 0)"
    by auto
  with Puzzle_2 calls_example show ?thesis by blast
qed

text \<open>
  Claim C10. \<open>setValue\<close> is atomic on its invalid-value error: when the value is
  not positive or exceeds \<open>N\<close>, the call throws \<open>std::invalid_argument\<close> with the
  message \<open>Bad value\<close> and the number, and the object is exactly as before the
  call; and whenever \<open>setValue\<close> throws, the object is as before the call.
\<close>

theorem setValue_throw_atomic:
  "(sint v \<le> 0 \<or> int (length (grid p)) < sint v \<longrightarrow>
      setValue row col v p = Throws (invalid_argument (''Bad value '' @ to_string (sint v))) p)
   \<and> (\<forall>e p'. setValue row col v p = Throws e p' \<longrightarrow> p' = p)"
proof -
  have "p' = p" if "setValue row col v p = Throws e p'" for e p'
    using that by (auto simp: setValue_def Let_def split: if_splits)
  then show ?thesis
    using setValue_Throws by blast
qed

theorem setValue_throw_atomic_witness:
  "int (length (grid fresh2)) < sint (3 :: c_int)
   \<and> setValue 1 1 3 fresh2 = Throws (invalid_argument ''Bad value 3'') fresh2"
  using setValue_throw_atomic [of 3 fresh2 1 1] to_string_3
  by simp

end
